theory Spec2Isabelle
  imports Complex_Main "HOL-Library.Log_Nat"
begin

section \<open>Logo compliance checker (compliance_check.py)\<close>

text \<open>
  The module has two functions: \<open>check_logo_in_image\<close>, which decides for one pair of
  image files whether the logo occurs in the campaign image, and
  \<open>check_campaign_compliance\<close>, which runs it over every product, aspect ratio and
  market of a campaign file and counts the outcomes.

  Both call into the file system, OpenCV, pathlib and PyYAML. Those calls are the
  fields of the record \<open>env\<close> below: every theorem holds for every behaviour of the
  libraries, including every exception they may raise. A library call that may raise
  returns a sum, \<open>Inl\<close> carrying the message of the exception.

  A finite Python float is the rational it denotes. The product of the ratio test and
  the quotient of the confidence are rounded to the nearest binary64 number, ties to
  even, as the machine does (\<open>round_double\<close>). \<open>round(x, 3)\<close> rounds the exact value
  of the double \<open>x\<close> to the nearest multiple of 1/1000, ties to even; the float it
  returns is the double nearest to that decimal, the one Python prints as that decimal,
  and a result holds the decimal. Pixel coordinates are exact rationals: no NaN, no
  infinity, so the \<open>int\<close> of a coordinate never fails here. What is printed is not
  modelled.
\<close>

subsection \<open>Data\<close>

type_synonym point = "rat \<times> rat"

text \<open>cv2.KeyPoint: only the field \<open>pt\<close> is read.\<close>

record keypoint =
  pt :: point

text \<open>cv2.DMatch.\<close>

record dmatch =
  distance :: rat
  queryIdx :: int
  trainIdx :: int

type_synonym descriptors = "nat list list"

type_synonym matrix = "rat list list"

type_synonym box = "int \<times> int \<times> int \<times> int"

text \<open>The dictionary returned by \<open>check_logo_in_image\<close>.\<close>

record result =
  found :: bool
  match_count :: nat
  confidence :: rat
  location :: "box option"
  error :: "string option"

text \<open>
  Values loaded by \<open>yaml.safe_load\<close>. A mapping is an association list with distinct
  keys, as a loaded dict has; \<open>dict.get\<close> reads it with \<open>map_of\<close>.
\<close>

datatype yaml =
    YNull
  | YBool bool
  | YInt int
  | YFloat rat
  | YStr string
  | YList "yaml list"
  | YDict "(yaml \<times> yaml) list"

text \<open>
  Exceptions that leave \<open>check_campaign_compliance\<close>: \<open>OSError\<close> comes from
  \<open>Path.exists\<close>, \<open>LoadError\<close> from \<open>open\<close> and \<open>yaml.safe_load\<close>.
\<close>

datatype exn = AttributeError | TypeError | OSError string | LoadError string

text \<open>
  The libraries. \<open>Path\<close> is \<open>str(Path(s))\<close>: a path is represented by its string.
  \<open>path_exists\<close> is \<open>Path.exists\<close>: it answers \<open>True\<close> or \<open>False\<close>, or raises
  OSError (a name too long, a directory that may not be searched).
  \<open>imread\<close> returns \<open>None\<close> for a file it cannot decode. \<open>detectAndCompute\<close>
  returns the keypoints and the descriptor array, \<open>None\<close> when there is none.
  \<open>knnMatch\<close> is called with \<open>k=2\<close> and returns one tuple of matches per query
  descriptor. \<open>findHomography\<close> returns the matrix or \<open>None\<close>. \<open>shape\<close> is the
  \<open>(rows, columns)\<close> of a grayscale image. \<open>open_yaml\<close> is \<open>open\<close> followed by
  \<open>yaml.safe_load\<close>. \<open>py_str\<close> is the text an f-string puts for a value.
\<close>

record 'img env =
  Path :: "string \<Rightarrow> string"
  path_exists :: "string \<Rightarrow> string + bool"
  is_absolute :: "string \<Rightarrow> bool"
  parts :: "string \<Rightarrow> string list"
  joinpath :: "string \<Rightarrow> string \<Rightarrow> string"
  imread :: "string \<Rightarrow> string + 'img option"
  cvtColor :: "'img \<Rightarrow> string + 'img"
  ORB_create :: "string + unit"
  detectAndCompute :: "'img \<Rightarrow> string + keypoint list \<times> descriptors option"
  BFMatcher :: "string + unit"
  knnMatch :: "descriptors \<Rightarrow> descriptors \<Rightarrow> string + dmatch list list"
  findHomography :: "point list \<Rightarrow> point list \<Rightarrow> string + matrix option"
  perspectiveTransform :: "point list \<Rightarrow> matrix \<Rightarrow> string + point list"
  shape :: "'img \<Rightarrow> nat \<times> nat"
  open_yaml :: "string \<Rightarrow> string + yaml"
  py_str :: "yaml \<Rightarrow> string"

subsection \<open>Python built-ins\<close>

text \<open>\<open>round(x)\<close> to an integer, ties to the even neighbour.\<close>

definition round_half_even :: "rat \<Rightarrow> int" where
  "round_half_even x =
     (let f = \<lfloor>x\<rfloor>; d = x - of_int f
      in if d < 1 / 2 then f
         else if 1 / 2 < d then f + 1
         else if even f then f else f + 1)"

text \<open>\<open>round(x, 3)\<close> of the float whose exact value is \<open>x\<close>.\<close>

definition py_round3 :: "rat \<Rightarrow> rat" where
  "py_round3 x = of_int (round_half_even (x * 1000)) / 1000"

text \<open>
  Rounding to binary64: 53 significant bits, ties to even, gradual underflow below
  \<open>2^-1022\<close>. \<open>floor_log2 x\<close> is the exponent \<open>e\<close> with \<open>2^e \<le> x < 2^(e+1)\<close>
  for a positive \<open>x\<close>. A magnitude beyond the largest double stays finite here, where
  the machine gives an infinity; against a finite distance the comparison of line 139
  comes out the same, and the quotient of line 147 is capped at 1.0.
\<close>

definition pow2 :: "int \<Rightarrow> rat" where
  "pow2 k = (if 0 \<le> k then 2 ^ nat k else 1 / 2 ^ nat (- k))"

definition floor_log2 :: "rat \<Rightarrow> int" where
  "floor_log2 x =
     (case quotient_of x of (p, q) \<Rightarrow>
        (let d = bitlen p - bitlen q in if pow2 d \<le> x then d else d - 1))"

definition round_double :: "rat \<Rightarrow> rat" where
  "round_double x =
     (if x = 0 then 0
      else (let k = max (floor_log2 \<bar>x\<bar> - 52) (- 1074)
            in of_int (round_half_even (x / pow2 k)) * pow2 k))"

text \<open>\<open>int(x)\<close> of a float: truncation towards zero.\<close>

definition py_int :: "rat \<Rightarrow> int" where
  "py_int x = (if 0 \<le> x then \<lfloor>x\<rfloor> else \<lceil>x\<rceil>)"

text \<open>\<open>xs[i]\<close>: a negative index counts from the end; \<open>None\<close> is IndexError.\<close>

definition py_index :: "'a list \<Rightarrow> int \<Rightarrow> 'a option" where
  "py_index xs i =
     (let n = int (length xs); j = (if i < 0 then n + i else i)
      in if 0 \<le> j \<and> j < n then Some (xs ! nat j) else None)"

text \<open>\<open>np.min\<close> and \<open>np.max\<close> of a non-empty array.\<close>

fun np_min :: "rat list \<Rightarrow> rat option" where
  "np_min [] = None"
| "np_min (x # xs) = Some (fold min xs x)"

fun np_max :: "rat list \<Rightarrow> rat option" where
  "np_max [] = None"
| "np_max (x # xs) = Some (fold max xs x)"

subsection \<open>check_logo_in_image\<close>

text \<open>The dictionary of every error return (lines 67-73, 76-82, 89-95, 98-104, 120-126, 198-204).\<close>

definition error_result :: "string \<Rightarrow> result" where
  "error_result msg =
     \<lparr>found = False, match_count = 0, confidence = 0, location = None, error = Some msg\<rparr>"

text \<open>
  Lowe's ratio test, the loop of lines 135-140. The product of line 139 is a product of
  doubles.
\<close>

fun ratio_test :: "rat \<Rightarrow> dmatch list list \<Rightarrow> dmatch list" where
  "ratio_test good_match_threshold [] = []"
| "ratio_test good_match_threshold (match_pair # matches) =
     (if length match_pair = 2
      then (let m = match_pair ! 0; n = match_pair ! 1
            in if distance m < round_double (good_match_threshold * distance n)
               then m # ratio_test good_match_threshold matches
               else ratio_test good_match_threshold matches)
      else ratio_test good_match_threshold matches)"

text \<open>
  The inner \<open>try\<close> block, lines 157-187. Every exception raised inside it (an index out
  of range, OpenCV failing, \<open>np.min\<close> of an empty array) is swallowed by the
  \<open>except\<close> of line 185 and leaves \<open>location\<close> at \<open>None\<close>, as does a homography
  that is \<open>None\<close>.
\<close>

definition find_location ::
  "'img env \<Rightarrow> keypoint list \<Rightarrow> keypoint list \<Rightarrow> dmatch list \<Rightarrow> 'img \<Rightarrow> box option" where
  "find_location e kp1 kp2 good_matches logo_gray =
     (case those (map (\<lambda>m. map_option pt (py_index kp1 (queryIdx m))) good_matches) of
        None \<Rightarrow> None
      | Some src_pts \<Rightarrow>
     (case those (map (\<lambda>m. map_option pt (py_index kp2 (trainIdx m))) good_matches) of
        None \<Rightarrow> None
      | Some dst_pts \<Rightarrow>
     (case findHomography e src_pts dst_pts of
        Inl ex \<Rightarrow> None
      | Inr None \<Rightarrow> None
      | Inr (Some M) \<Rightarrow>
     (case shape e logo_gray of (h, w) \<Rightarrow>
     (let pts = [(0, 0), (0, of_int (int h - 1)), (of_int (int w - 1), of_int (int h - 1)),
                 (of_int (int w - 1), 0)]
      in case perspectiveTransform e pts M of
           Inl ex \<Rightarrow> None
         | Inr dst \<Rightarrow>
        (let x_coords = map fst dst; y_coords = map snd dst
         in case (np_min x_coords, np_min y_coords, np_max x_coords, np_max y_coords) of
              (Some min_x, Some min_y, Some max_x, Some max_y) \<Rightarrow>
                (let x = py_int min_x; y = py_int min_y;
                     width = py_int (max_x - of_int x);
                     height = py_int (max_y - of_int y)
                 in Some (x, y, width, height))
            | _ \<Rightarrow> None))))))"

text \<open>
  Lines 134-195: from the matches to the returned dictionary. The quotient of line 147
  is the correctly rounded quotient of two integers.
\<close>

definition match_and_decide ::
  "'img env \<Rightarrow> int \<Rightarrow> rat \<Rightarrow> keypoint list \<Rightarrow> keypoint list \<Rightarrow> dmatch list list \<Rightarrow> 'img
     \<Rightarrow> result" where
  "match_and_decide e min_match_count good_match_threshold kp1 kp2 matches logo_gray =
     (let good_matches = ratio_test good_match_threshold matches;
          match_count = length good_matches;
          confidence = (if length kp1 > 0
                        then min (round_double (of_nat match_count / of_nat (length kp1))) 1
                        else 0);
          logo_found = (min_match_count \<le> int match_count);
          location = (if logo_found \<and> 4 \<le> length good_matches
                      then find_location e kp1 kp2 good_matches logo_gray
                      else None)
      in \<lparr>found = logo_found, match_count = match_count,
          confidence = py_round3 confidence, location = location, error = None\<rparr>)"

text \<open>
  Lines 61-204. An exception of a library call reaches the \<open>except\<close> of line 197 and
  becomes the result \<open>Logo detection error: ...\<close>.
\<close>

definition detection_error :: "string \<Rightarrow> result" where
  "detection_error msg = error_result (''Logo detection error: '' @ msg)"

definition check_logo_in_image ::
  "'img env \<Rightarrow> string \<Rightarrow> string \<Rightarrow> int \<Rightarrow> rat \<Rightarrow> result" where
  "check_logo_in_image e campaign_image_path logo_path min_match_count good_match_threshold =
     (let campaign_img_path = Path e campaign_image_path;
          logo_img_path = Path e logo_path
      in case path_exists e campaign_img_path of Inl ex \<Rightarrow> detection_error ex
         | Inr False \<Rightarrow> error_result (''Campaign image not found: '' @ campaign_image_path)
         | Inr True \<Rightarrow>
     (case path_exists e logo_img_path of Inl ex \<Rightarrow> detection_error ex
      | Inr False \<Rightarrow> error_result (''Logo image not found: '' @ logo_path)
      | Inr True \<Rightarrow>
     (case imread e campaign_img_path of Inl ex \<Rightarrow> detection_error ex
      | Inr campaign_img \<Rightarrow>
     (case imread e logo_img_path of Inl ex \<Rightarrow> detection_error ex
      | Inr logo_img \<Rightarrow>
     (case campaign_img of
        None \<Rightarrow> error_result (''Could not read campaign image: '' @ campaign_image_path)
      | Some c_img \<Rightarrow>
     (case logo_img of
        None \<Rightarrow> error_result (''Could not read logo image: '' @ logo_path)
      | Some l_img \<Rightarrow>
     (case cvtColor e c_img of Inl ex \<Rightarrow> detection_error ex
      | Inr campaign_gray \<Rightarrow>
     (case cvtColor e l_img of Inl ex \<Rightarrow> detection_error ex
      | Inr logo_gray \<Rightarrow>
     (case ORB_create e of Inl ex \<Rightarrow> detection_error ex
      | Inr orb \<Rightarrow>
     (case detectAndCompute e logo_gray of Inl ex \<Rightarrow> detection_error ex
      | Inr (kp1, des1) \<Rightarrow>
     (case detectAndCompute e campaign_gray of Inl ex \<Rightarrow> detection_error ex
      | Inr (kp2, des2) \<Rightarrow>
     (case (des1, des2) of
        (Some d1, Some d2) \<Rightarrow>
          (case BFMatcher e of Inl ex \<Rightarrow> detection_error ex
           | Inr bf \<Rightarrow>
          (case knnMatch e d1 d2 of Inl ex \<Rightarrow> detection_error ex
           | Inr matches \<Rightarrow>
               match_and_decide e min_match_count good_match_threshold kp1 kp2 matches
                 logo_gray))
      | _ \<Rightarrow> error_result ''Not enough features detected in images''))))))))))))"

text \<open>The defaults of the keyword arguments (lines 36-37, 209).\<close>

definition default_min_match_count :: int where
  "default_min_match_count = 10"

definition default_good_match_threshold :: rat where
  "default_good_match_threshold = 3 / 4"

subsection \<open>Python operations on loaded YAML values\<close>

text \<open>\<open>v.get(k, d)\<close>: only a dict has the method.\<close>

fun py_get :: "yaml \<Rightarrow> yaml \<Rightarrow> yaml \<Rightarrow> exn + yaml" where
  "py_get (YDict kvs) k d = Inr (case map_of kvs k of None \<Rightarrow> d | Some v \<Rightarrow> v)"
| "py_get v k d = Inl AttributeError"

text \<open>
  \<open>for x in v\<close>: a list gives its items, a dict its keys, a string its characters;
  anything else raises TypeError.
\<close>

fun py_iter :: "yaml \<Rightarrow> exn + yaml list" where
  "py_iter (YList xs) = Inr xs"
| "py_iter (YDict kvs) = Inr (map fst kvs)"
| "py_iter (YStr s) = Inr (map (\<lambda>c. YStr [c]) s)"
| "py_iter v = Inl TypeError"

text \<open>\<open>len(v)\<close>.\<close>

fun py_len :: "yaml \<Rightarrow> exn + nat" where
  "py_len (YList xs) = Inr (length xs)"
| "py_len (YDict kvs) = Inr (length kvs)"
| "py_len (YStr s) = Inr (length s)"
| "py_len v = Inl TypeError"

text \<open>The truth value of \<open>v\<close>, as \<open>not v\<close> and \<open>if v\<close> read it.\<close>

fun py_truthy :: "yaml \<Rightarrow> bool" where
  "py_truthy YNull = False"
| "py_truthy (YBool b) = b"
| "py_truthy (YInt i) = (i \<noteq> 0)"
| "py_truthy (YFloat x) = (x \<noteq> 0)"
| "py_truthy (YStr s) = (s \<noteq> [])"
| "py_truthy (YList xs) = (xs \<noteq> [])"
| "py_truthy (YDict kvs) = (kvs \<noteq> [])"

text \<open>The truth value of \<open>result['error']\<close>: \<open>None\<close> and the empty string are false.\<close>

definition error_truthy :: "string option \<Rightarrow> bool" where
  "error_truthy err = (case err of None \<Rightarrow> False | Some s \<Rightarrow> s \<noteq> [])"

text \<open>A \<open>for\<close> loop whose body may raise: the first exception ends the loop.\<close>

fun for_each :: "('s \<Rightarrow> 'a \<Rightarrow> exn + 's) \<Rightarrow> 'a list \<Rightarrow> 's \<Rightarrow> exn + 's" where
  "for_each body [] st = Inr st"
| "for_each body (x # xs) st =
     (case body st x of Inl ex \<Rightarrow> Inl ex | Inr st' \<Rightarrow> for_each body xs st')"

definition py_for :: "('s \<Rightarrow> yaml \<Rightarrow> exn + 's) \<Rightarrow> yaml \<Rightarrow> 's \<Rightarrow> exn + 's" where
  "py_for body v st = (case py_iter v of Inl ex \<Rightarrow> Inl ex | Inr xs \<Rightarrow> for_each body xs st)"

subsection \<open>check_campaign_compliance\<close>

text \<open>
  An entry of \<open>results\<close> (lines 314-321): the keys \<open>product_id\<close>, \<open>aspect_ratio\<close>,
  \<open>market_id\<close>, \<open>image_path\<close> and \<open>logo_path\<close>, then the keys of the result.
\<close>

record result_entry = result +
  entry_product_id :: yaml
  entry_aspect_ratio :: yaml
  entry_market_id :: yaml
  entry_image_path :: string
  entry_logo_path :: string

text \<open>
  The returned dictionary. Its key \<open>error\<close>, present only in the return of line 243,
  is the field \<open>load_error\<close>. The five other fields are also the local variables
  of lines 270-274, so the record is the state of the loops.
\<close>

record summary =
  total_checked :: nat
  passed :: nat
  failed :: nat
  errors :: nat
  results :: "result_entry list"
  load_error :: "string option"

text \<open>The path of the localized campaign image, lines 293-294.\<close>

definition expected_image_path :: "'img env \<Rightarrow> yaml \<Rightarrow> yaml \<Rightarrow> yaml \<Rightarrow> yaml \<Rightarrow> string" where
  "expected_image_path e campaign_id product_id aspect_ratio market_id =
     (let image_filename = ''campaign_'' @ py_str e product_id @ ''_'' @ py_str e market_id
            @ ''_'' @ py_str e aspect_ratio @ ''.png''
      in ''output/'' @ py_str e campaign_id @ ''/'' @ py_str e product_id @ ''/''
           @ py_str e aspect_ratio @ ''/'' @ py_str e market_id @ ''/'' @ image_filename)"

text \<open>Lines 301-337: the image is there; check it, store the entry, count the outcome.\<close>

definition record_check ::
  "'img env \<Rightarrow> int \<Rightarrow> yaml \<Rightarrow> string \<Rightarrow> yaml \<Rightarrow> yaml \<Rightarrow> string \<Rightarrow> summary \<Rightarrow> summary" where
  "record_check e min_match_count product_id logo_path aspect_ratio market_id image_path st =
     (let st1 = st\<lparr>total_checked := total_checked st + 1\<rparr>;
          result = check_logo_in_image e image_path logo_path min_match_count
                     default_good_match_threshold;
          result_entry = \<lparr>found = found result, match_count = match_count result,
             confidence = confidence result, location = location result,
             error = error result,
             entry_product_id = product_id, entry_aspect_ratio = aspect_ratio,
             entry_market_id = market_id, entry_image_path = image_path,
             entry_logo_path = logo_path\<rparr>;
          st2 = st1\<lparr>results := results st1 @ [result_entry]\<rparr>
      in if error_truthy (error result) then st2\<lparr>errors := errors st2 + 1\<rparr>
         else if found result then st2\<lparr>passed := passed st2 + 1\<rparr>
         else st2\<lparr>failed := failed st2 + 1\<rparr>)"

text \<open>The body of the innermost loop, lines 290-340.\<close>

definition check_market ::
  "'img env \<Rightarrow> int \<Rightarrow> yaml \<Rightarrow> yaml \<Rightarrow> string \<Rightarrow> yaml \<Rightarrow> summary \<Rightarrow> yaml \<Rightarrow> exn + summary" where
  "check_market e min_match_count campaign_id product_id logo_path aspect_ratio st market =
     (case py_get market (YStr ''market_id'') YNull of Inl ex \<Rightarrow> Inl ex
      | Inr market_id \<Rightarrow>
     (let image_path = expected_image_path e campaign_id product_id aspect_ratio market_id
      in case path_exists e (Path e image_path) of Inl msg \<Rightarrow> Inl (OSError msg)
         | Inr False \<Rightarrow> Inr st
         | Inr True \<Rightarrow>
             Inr (record_check e min_match_count product_id logo_path aspect_ratio market_id
                    image_path st)))"

text \<open>The body of the loop over the aspect ratios, lines 288-340.\<close>

definition check_aspect_ratio ::
  "'img env \<Rightarrow> int \<Rightarrow> yaml \<Rightarrow> yaml \<Rightarrow> string \<Rightarrow> yaml \<Rightarrow> summary \<Rightarrow> yaml \<Rightarrow> exn + summary" where
  "check_aspect_ratio e min_match_count campaign_id product_id logo_path markets st aspect_ratio =
     py_for (check_market e min_match_count campaign_id product_id logo_path aspect_ratio)
       markets st"

text \<open>The body of the loop over the products, lines 277-340.\<close>

definition check_product ::
  "'img env \<Rightarrow> int \<Rightarrow> yaml \<Rightarrow> yaml \<Rightarrow> yaml \<Rightarrow> summary \<Rightarrow> yaml \<Rightarrow> exn + summary" where
  "check_product e min_match_count campaign_id aspect_ratios markets st product =
     (case py_get product (YStr ''id'') YNull of Inl ex \<Rightarrow> Inl ex
      | Inr product_id \<Rightarrow>
     (case py_get product (YStr ''assets'') (YDict []) of Inl ex \<Rightarrow> Inl ex
      | Inr assets \<Rightarrow>
     (case py_get assets (YStr ''logo'') YNull of Inl ex \<Rightarrow> Inl ex
      | Inr logo_filename \<Rightarrow>
         if \<not> py_truthy logo_filename then Inr st
         else (let logo_path = ''input/assets/'' @ py_str e logo_filename
               in py_for (check_aspect_ratio e min_match_count campaign_id product_id logo_path
                            markets) aspect_ratios st))))"

text \<open>
  The \<open>len\<close> calls of the progress messages of lines 262-267, which raise TypeError
  on a value without a length. What is printed is not modelled.
\<close>

definition print_header :: "bool \<Rightarrow> yaml \<Rightarrow> yaml \<Rightarrow> yaml \<Rightarrow> exn + unit" where
  "print_header verbose products markets aspect_ratios =
     (if verbose
      then (case py_len products of Inl ex \<Rightarrow> Inl ex
            | Inr n1 \<Rightarrow>
           (case py_len markets of Inl ex \<Rightarrow> Inl ex
            | Inr n2 \<Rightarrow>
           (case py_len aspect_ratios of Inl ex \<Rightarrow> Inl ex
            | Inr n3 \<Rightarrow> Inr ())))
      else Inr ())"

text \<open>Lines 237-240.\<close>

definition resolve_campaign_path :: "'img env \<Rightarrow> string \<Rightarrow> string" where
  "resolve_campaign_path e campaign_file =
     (let campaign_path = Path e campaign_file
      in if \<not> is_absolute e campaign_path \<and> length (parts e campaign_path) = 1
         then joinpath e (Path e ''input/campaigns'') campaign_file
         else campaign_path)"

text \<open>Lines 270-274.\<close>

definition initial_summary :: summary where
  "initial_summary =
     \<lparr>total_checked = 0, passed = 0, failed = 0, errors = 0, results = [], load_error = None\<rparr>"

text \<open>
  Lines 230-364. \<open>Inl\<close> is an exception leaving the function: nothing in it catches
  one.
\<close>

definition check_campaign_compliance ::
  "'img env \<Rightarrow> string \<Rightarrow> int \<Rightarrow> bool \<Rightarrow> exn + summary" where
  "check_campaign_compliance e campaign_file min_match_count verbose =
     (let campaign_path = resolve_campaign_path e campaign_file
      in case path_exists e campaign_path of Inl msg \<Rightarrow> Inl (OSError msg)
         | Inr False \<Rightarrow>
             Inr \<lparr>total_checked = 0, passed = 0, failed = 0, errors = 1, results = [],
                  load_error = Some (''Campaign file not found: '' @ campaign_path)\<rparr>
         | Inr True \<Rightarrow>
     (case open_yaml e campaign_path of Inl msg \<Rightarrow> Inl (LoadError msg)
      | Inr data \<Rightarrow>
     (case py_get data (YStr ''campaign'') (YDict []) of Inl ex \<Rightarrow> Inl ex
      | Inr campaign \<Rightarrow>
     (case py_get data (YStr ''products'') (YList []) of Inl ex \<Rightarrow> Inl ex
      | Inr products \<Rightarrow>
     (case py_get campaign (YStr ''id'') YNull of Inl ex \<Rightarrow> Inl ex
      | Inr campaign_id \<Rightarrow>
     (case py_get campaign (YStr ''markets'') (YList []) of Inl ex \<Rightarrow> Inl ex
      | Inr markets \<Rightarrow>
     (case py_get data (YStr ''creative'') (YDict []) of Inl ex \<Rightarrow> Inl ex
      | Inr creative \<Rightarrow>
     (case py_get creative (YStr ''aspect_ratios'') (YList []) of Inl ex \<Rightarrow> Inl ex
      | Inr aspect_ratios \<Rightarrow>
     (case print_header verbose products markets aspect_ratios of Inl ex \<Rightarrow> Inl ex
      | Inr u \<Rightarrow>
         py_for (check_product e min_match_count campaign_id aspect_ratios markets)
           products initial_summary)))))))))"

subsection \<open>A concrete environment\<close>

text \<open>
  A small world on which the functions are run: a campaign \<open>c1\<close> with three products
  (the second has no logo, the logo of the third has no features), two aspect ratios
  and two markets. Images are numbers: 1 is the logo, 2 a campaign image, 3 the logo
  without features; grayscale images are these plus 10. The logo has six keypoints; of
  the six match tuples four pass the ratio test at 0.75, one fails it and one holds a
  single match. The files on disk and the outcome of \<open>findHomography\<close> are
  parameters.
\<close>

definition demo_keypoints :: "keypoint list" where
  "demo_keypoints =
     [\<lparr>pt = (0, 0)\<rparr>, \<lparr>pt = (10, 0)\<rparr>, \<lparr>pt = (10, 5)\<rparr>, \<lparr>pt = (0, 5)\<rparr>, \<lparr>pt = (5, 2)\<rparr>,
      \<lparr>pt = (3, 4)\<rparr>]"

definition demo_matches :: "dmatch list list" where
  "demo_matches =
     [[\<lparr>distance = 10, queryIdx = 0, trainIdx = 0\<rparr>, \<lparr>distance = 40, queryIdx = 0, trainIdx = 1\<rparr>],
      [\<lparr>distance = 12, queryIdx = 1, trainIdx = 1\<rparr>, \<lparr>distance = 50, queryIdx = 1, trainIdx = 2\<rparr>],
      [\<lparr>distance = 3, queryIdx = 2, trainIdx = 2\<rparr>, \<lparr>distance = 8, queryIdx = 2, trainIdx = 0\<rparr>],
      [\<lparr>distance = 20, queryIdx = 3, trainIdx = 3\<rparr>, \<lparr>distance = 60, queryIdx = 3, trainIdx = 1\<rparr>],
      [\<lparr>distance = 30, queryIdx = 4, trainIdx = 4\<rparr>, \<lparr>distance = 35, queryIdx = 4, trainIdx = 2\<rparr>],
      [\<lparr>distance = 5, queryIdx = 5, trainIdx = 5\<rparr>]]"

definition demo_campaign :: yaml where
  "demo_campaign = YDict
     [(YStr ''campaign'', YDict
         [(YStr ''id'', YStr ''c1''),
          (YStr ''markets'', YList [YDict [(YStr ''market_id'', YStr ''us'')],
                                   YDict [(YStr ''market_id'', YStr ''de'')]])]),
      (YStr ''creative'', YDict [(YStr ''aspect_ratios'', YList [YStr ''1x1'', YStr ''9x16''])]),
      (YStr ''products'', YList
         [YDict [(YStr ''id'', YStr ''p1''), (YStr ''assets'', YDict [(YStr ''logo'', YStr ''logo.png'')])],
          YDict [(YStr ''id'', YStr ''p2''), (YStr ''assets'', YDict [(YStr ''product_image'', YStr ''p2.png'')])],
          YDict [(YStr ''id'', YStr ''p3''), (YStr ''assets'', YDict [(YStr ''logo'', YStr ''blank.png'')])]])]"

definition demo_str :: "yaml \<Rightarrow> string" where
  "demo_str v = (case v of YStr s \<Rightarrow> s | YNull \<Rightarrow> ''None'' | _ \<Rightarrow> ''?'')"

definition demo_env :: "string list \<Rightarrow> string + matrix option \<Rightarrow> nat env" where
  "demo_env files hom =
     \<lparr>Path = (\<lambda>s. s),
      path_exists = (\<lambda>p. Inr (p \<in> set files)),
      is_absolute = (\<lambda>p. take 1 p = ''/''),
      parts = (\<lambda>p. if CHR ''/'' \<in> set p then [takeWhile (\<lambda>c. c \<noteq> CHR ''/'') p,
                                                  dropWhile (\<lambda>c. c \<noteq> CHR ''/'') p]
                     else [p]),
      joinpath = (\<lambda>a b. a @ ''/'' @ b),
      imread = (\<lambda>p. if p = ''input/assets/logo.png'' then Inr (Some 1)
                      else if p = ''input/assets/blank.png'' then Inr (Some 3)
                      else if p = ''input/assets/corrupt.png'' then Inr None
                      else Inr (Some 2)),
      cvtColor = (\<lambda>img. Inr (img + 10)),
      ORB_create = Inr (),
      detectAndCompute = (\<lambda>img. if img = 13 then Inr ([], None)
                                 else Inr (demo_keypoints, Some [[img]])),
      BFMatcher = Inr (),
      knnMatch = (\<lambda>d1 d2. Inr demo_matches),
      findHomography = (\<lambda>src dst. hom),
      perspectiveTransform = (\<lambda>pts M. Inr pts),
      shape = (\<lambda>img. (20, 50)),
      open_yaml = (\<lambda>p. if p = ''input/campaigns/holiday_campaign.yaml'' then Inr demo_campaign
                         else Inl ''YAMLError''),
      py_str = demo_str\<rparr>"

definition demo_files :: "string list" where
  "demo_files =
     [''input/campaigns/holiday_campaign.yaml'', ''input/campaigns/broken.yaml'',
      ''input/assets/logo.png'', ''input/assets/blank.png'',
      ''output/c1/p1/1x1/us/campaign_p1_us_1x1.png'',
      ''output/c1/p1/9x16/us/campaign_p1_us_9x16.png'',
      ''output/c1/p1/9x16/de/campaign_p1_de_9x16.png'',
      ''output/c1/p2/1x1/us/campaign_p2_us_1x1.png'',
      ''output/c1/p3/1x1/us/campaign_p3_us_1x1.png'']"

section \<open>Properties\<close>

subsection \<open>Rounding\<close>


lemma round_half_even_between:
  assumes "of_int k \<le> x" "x \<le> of_int l"
  shows "k \<le> round_half_even x \<and> round_half_even x \<le> l"
proof -
  have f: "of_int \<lfloor>x\<rfloor> \<le> x" "x < of_int \<lfloor>x\<rfloor> + 1" by linarith+
  have k: "k \<le> \<lfloor>x\<rfloor>" using assms(1) by (simp add: le_floor_iff)
  have l: "\<lfloor>x\<rfloor> \<le> l" using assms(2) by (simp add: floor_le_iff)
  have "\<lfloor>x\<rfloor> + 1 \<le> l" if "x \<noteq> of_int \<lfloor>x\<rfloor>"
  proof -
    have "of_int \<lfloor>x\<rfloor> < (of_int l :: rat)" using that f assms(2) by linarith
    then have "\<lfloor>x\<rfloor> < l" by simp
    then show ?thesis by simp
  qed
  then show ?thesis
    unfolding round_half_even_def Let_def using k l by auto
qed


lemma py_round3_unit:
  assumes "0 \<le> x" "x \<le> 1"
  shows "0 \<le> py_round3 x \<and> py_round3 x \<le> 1"
proof -
  have "of_int 0 \<le> x * 1000" "x * 1000 \<le> of_int 1000" using assms by simp_all
  from round_half_even_between [OF this]
  show ?thesis unfolding py_round3_def by simp
qed


subsection \<open>Rounding to binary64\<close>

lemma pow2_powi: "pow2 k = 2 powi k"
  by (simp add: pow2_def power_int_def inverse_eq_divide power_one_over)

lemma pow2_pos: "0 < pow2 k"
  by (simp add: pow2_powi)



lemma pow2_nat: "pow2 (int n) = 2 ^ n"
  by (simp add: pow2_def)







lemma round_double_nonneg:
  assumes "0 \<le> x"
  shows "0 \<le> round_double x"
proof (cases "x = 0")
  case True
  then show ?thesis by (simp add: round_double_def)
next
  case False
  let ?k = "max (floor_log2 \<bar>x\<bar> - 52) (- 1074)"
  have "of_int 0 \<le> x / pow2 ?k" using assms pow2_pos [of ?k] by simp
  moreover have "x / pow2 ?k \<le> of_int \<lceil>x / pow2 ?k\<rceil>" by linarith
  ultimately have "0 \<le> round_half_even (x / pow2 ?k)"
    using round_half_even_between by blast
  then show ?thesis
    using False pow2_pos [of ?k] by (simp add: round_double_def Let_def)
qed






text \<open>
  The rounding agrees with the machine where exact rationals do not: \<open>round(1/80, 3)\<close>
  is 0.013 and \<open>round(3/80, 3)\<close> is 0.037, \<open>7.0 < 0.28 * 25.0\<close> holds and
  \<open>3.0 < 0.1 * 30.0\<close> does not.
\<close>

lemma round_double_examples:
  "py_round3 (round_double (1 / 80)) = 13 / 1000"
  "py_round3 (round_double (3 / 80)) = 37 / 1000"
  "7 < round_double (round_double (7 / 25) * 25)"
  "\<not> 3 < round_double (round_double (1 / 10) * 30)"
  "round_double (3 / 4 * 40) = 30"
  by code_simp+

subsection \<open>The two shapes of a result\<close>

lemma error_result_sel:
  "found (error_result msg) = False"
  "match_count (error_result msg) = 0"
  "confidence (error_result msg) = 0"
  "location (error_result msg) = None"
  "error (error_result msg) = Some msg"
  by (simp_all add: error_result_def)

lemma match_and_decide_sel:
  "error (match_and_decide e mmc thr kp1 kp2 ms lg) = None"
  "match_count (match_and_decide e mmc thr kp1 kp2 ms lg) = length (ratio_test thr ms)"
  "found (match_and_decide e mmc thr kp1 kp2 ms lg) = (mmc \<le> int (length (ratio_test thr ms)))"
  "confidence (match_and_decide e mmc thr kp1 kp2 ms lg) =
     py_round3 (if 0 < length kp1
                then min (round_double (of_nat (length (ratio_test thr ms)) / of_nat (length kp1))) 1 else 0)"
  "location (match_and_decide e mmc thr kp1 kp2 ms lg) =
     (if mmc \<le> int (length (ratio_test thr ms)) \<and> 4 \<le> length (ratio_test thr ms)
      then find_location e kp1 kp2 (ratio_test thr ms) lg else None)"
  by (simp_all add: match_and_decide_def Let_def)

text \<open>
  Every call ends in one of the error dictionaries or, when both files exist, both images
  decode, every OpenCV call returns and both descriptor arrays are there, in the
  dictionary computed from the matches.
\<close>

lemma check_logo_in_image_cases:
  assumes err: "\<And>msg. P (error_result msg)"
    and ok: "\<And>c_img l_img cg lg kp1 d1 kp2 d2 ms.
      path_exists e (Path e c) = Inr True \<Longrightarrow> path_exists e (Path e l) = Inr True \<Longrightarrow>
      imread e (Path e c) = Inr (Some c_img) \<Longrightarrow> imread e (Path e l) = Inr (Some l_img) \<Longrightarrow>
      cvtColor e c_img = Inr cg \<Longrightarrow> cvtColor e l_img = Inr lg \<Longrightarrow>
      detectAndCompute e lg = Inr (kp1, Some d1) \<Longrightarrow>
      detectAndCompute e cg = Inr (kp2, Some d2) \<Longrightarrow>
      knnMatch e d1 d2 = Inr ms \<Longrightarrow>
      P (match_and_decide e mmc thr kp1 kp2 ms lg)"
  shows "P (check_logo_in_image e c l mmc thr)"
  unfolding check_logo_in_image_def Let_def detection_error_def
  by (simp add: err ok split: sum.split option.split prod.split bool.split)

text \<open>An \<open>exists\<close> that raises: caught in the one function, not in the other.\<close>

lemma check_logo_in_image_exists_raises:
  assumes "path_exists e (Path e c) = Inl msg"
  shows "check_logo_in_image e c l mmc thr = error_result (''Logo detection error: '' @ msg)"
  using assms by (simp add: check_logo_in_image_def detection_error_def)

lemma check_campaign_compliance_exists_raises:
  assumes "path_exists e (resolve_campaign_path e campaign_file) = Inl msg"
  shows "check_campaign_compliance e campaign_file mmc verbose = Inl (OSError msg)"
  using assms by (simp add: check_campaign_compliance_def)

lemma check_market_exists_raises:
  assumes "py_get market (YStr ''market_id'') YNull = Inr mid"
    and "path_exists e (Path e (expected_image_path e cid pid ar mid)) = Inl msg"
  shows "check_market e mmc cid pid lp ar st market = Inl (OSError msg)"
  using assms by (simp add: check_market_def)

lemma check_logo_in_image_matched:
  assumes "path_exists e (Path e c) = Inr True" "path_exists e (Path e l) = Inr True"
    and "imread e (Path e c) = Inr (Some c_img)" "imread e (Path e l) = Inr (Some l_img)"
    and "cvtColor e c_img = Inr cg" "cvtColor e l_img = Inr lg"
    and "ORB_create e = Inr u1"
    and "detectAndCompute e lg = Inr (kp1, Some d1)"
    and "detectAndCompute e cg = Inr (kp2, Some d2)"
    and "BFMatcher e = Inr u2"
    and "knnMatch e d1 d2 = Inr ms"
  shows "check_logo_in_image e c l mmc thr = match_and_decide e mmc thr kp1 kp2 ms lg"
  unfolding check_logo_in_image_def Let_def using assms by simp

lemma check_logo_in_image_no_features:
  assumes "path_exists e (Path e c) = Inr True" "path_exists e (Path e l) = Inr True"
    and "imread e (Path e c) = Inr (Some c_img)" "imread e (Path e l) = Inr (Some l_img)"
    and "cvtColor e c_img = Inr cg" "cvtColor e l_img = Inr lg"
    and "ORB_create e = Inr u1"
    and "detectAndCompute e lg = Inr (kp1, des1)"
    and "detectAndCompute e cg = Inr (kp2, des2)"
    and "des1 = None \<or> des2 = None"
  shows "check_logo_in_image e c l mmc thr =
           error_result ''Not enough features detected in images''"
  unfolding check_logo_in_image_def Let_def using assms
  by (auto split: option.split)

subsection \<open>The ratio test and the confidence\<close>

lemma ratio_test_filter:
  "ratio_test thr matches =
     map (\<lambda>p. p ! 0)
       (filter (\<lambda>p. length p = 2 \<and> distance (p ! 0) < round_double (thr * distance (p ! 1))) matches)"
  by (induction matches) (simp_all add: Let_def)

lemma unit_ratio:
  "0 \<le> (if 0 < k then min (round_double (of_nat n / of_nat k)) 1 else 0 :: rat) \<and>
   (if 0 < k then min (round_double (of_nat n / of_nat k)) 1 else 0 :: rat) \<le> 1"
  using round_double_nonneg [of "of_nat n / of_nat k"] by simp

lemma success_confidence:
  assumes "error (check_logo_in_image e c l mmc thr) = None"
  shows "\<exists>l_img logo_gray kp1 des1.
           imread e (Path e l) = Inr (Some l_img) \<and> cvtColor e l_img = Inr logo_gray \<and>
           detectAndCompute e logo_gray = Inr (kp1, des1) \<and>
           confidence (check_logo_in_image e c l mmc thr) =
             py_round3 (if 0 < length kp1
                        then min (round_double (of_nat (match_count (check_logo_in_image e c l mmc thr))
                                    / of_nat (length kp1))) 1
                        else 0)"
proof -
  have "error r = None \<longrightarrow> (\<exists>l_img logo_gray kp1 des1.
           imread e (Path e l) = Inr (Some l_img) \<and> cvtColor e l_img = Inr logo_gray \<and>
           detectAndCompute e logo_gray = Inr (kp1, des1) \<and>
           confidence r =
             py_round3 (if 0 < length kp1
                        then min (round_double (of_nat (match_count r) / of_nat (length kp1))) 1 else 0))"
    if "r = check_logo_in_image e c l mmc thr" for r
    unfolding that
  proof (rule check_logo_in_image_cases, goal_cases)
    case (1 msg)
    show ?case by (simp add: error_result_sel)
  next
    case (2 c_img l_img cg lg kp1 d1 kp2 d2 ms)
    let ?r = "match_and_decide e mmc thr kp1 kp2 ms lg"
    have "confidence ?r = py_round3 (if 0 < length kp1
              then min (round_double (of_nat (match_count ?r) / of_nat (length kp1))) 1 else 0)"
      by (simp add: match_and_decide_sel)
    with 2(4,6,7) show ?case by blast
  qed
  with assms show ?thesis by blast
qed

subsection \<open>Runs in the concrete environment\<close>

lemma demo_ratio_test:
  "ratio_test (3 / 4) demo_matches =
     [\<lparr>distance = 10, queryIdx = 0, trainIdx = 0\<rparr>, \<lparr>distance = 12, queryIdx = 1, trainIdx = 1\<rparr>,
      \<lparr>distance = 3, queryIdx = 2, trainIdx = 2\<rparr>, \<lparr>distance = 20, queryIdx = 3, trainIdx = 3\<rparr>]"
  by code_simp

lemma demo_matched:
  "check_logo_in_image (demo_env demo_files hom) ''output/c1/p1/1x1/us/campaign_p1_us_1x1.png''
     ''input/assets/logo.png'' mmc thr =
   match_and_decide (demo_env demo_files hom) mmc thr demo_keypoints demo_keypoints
     demo_matches 11"
  by (rule check_logo_in_image_matched [where c_img = 2 and l_img = 1 and cg = 12 and ?d1.0 = "[[11]]"
        and ?d2.0 = "[[12]]" and ?u1.0 = "()" and ?u2.0 = "()"])
     (simp_all add: demo_env_def demo_files_def)

lemma demo_location:
  "find_location (demo_env demo_files (Inr (Some []))) demo_keypoints demo_keypoints
     (ratio_test (3 / 4) demo_matches) 11 = Some (0, 0, 49, 19)"
  unfolding demo_ratio_test
  by (simp add: find_location_def demo_env_def demo_keypoints_def py_index_def py_int_def)

lemma demo_keypoints_length: "length demo_keypoints = 6"
  by (simp add: demo_keypoints_def)

lemma demo_logo_keypoints:
  assumes "imread (demo_env demo_files hom) (Path (demo_env demo_files hom) ''input/assets/logo.png'')
             = Inr (Some l_img)"
    and "cvtColor (demo_env demo_files hom) l_img = Inr lg"
    and "detectAndCompute (demo_env demo_files hom) lg = Inr (kp1, des1)"
  shows "kp1 = demo_keypoints"
  using assms by (auto simp: demo_env_def split: if_splits)

lemma demo_run:
  "error (check_logo_in_image (demo_env demo_files hom)
      ''output/c1/p1/1x1/us/campaign_p1_us_1x1.png'' ''input/assets/logo.png'' mmc (3 / 4)) = None"
  "match_count (check_logo_in_image (demo_env demo_files hom)
      ''output/c1/p1/1x1/us/campaign_p1_us_1x1.png'' ''input/assets/logo.png'' mmc (3 / 4)) = 4"
  "found (check_logo_in_image (demo_env demo_files hom)
      ''output/c1/p1/1x1/us/campaign_p1_us_1x1.png'' ''input/assets/logo.png'' mmc (3 / 4)) = (mmc \<le> 4)"
  by (simp_all add: demo_matched match_and_decide_sel demo_ratio_test)

lemma demo_two_thirds:
  "py_round3 (min (round_double (2 / 3)) 1) = 667 / 1000"
  "py_round3 (min (round_double (2 / 3)) 1) \<noteq> min (round_double (2 / 3)) 1"
  by code_simp+

subsection \<open>Results of check_logo_in_image\<close>

text \<open>
  C1: whenever the result of \<open>check_logo_in_image\<close> has an error, it has
  \<open>found = False\<close>, \<open>match_count = 0\<close> and \<open>confidence = 0.0\<close>, whatever the paths,
  the parameters and the libraries do.
\<close>

theorem error_implies_not_found:
  "error (check_logo_in_image e c l mmc thr) \<noteq> None \<Longrightarrow>
     \<not> found (check_logo_in_image e c l mmc thr) \<and>
     match_count (check_logo_in_image e c l mmc thr) = 0 \<and>
     confidence (check_logo_in_image e c l mmc thr) = 0"
proof -
  have "error r \<noteq> None \<longrightarrow> \<not> found r \<and> match_count r = 0 \<and> confidence r = 0"
    if "r = check_logo_in_image e c l mmc thr" for r
    unfolding that
    by (rule check_logo_in_image_cases) (simp_all add: error_result_sel match_and_decide_sel)
  then show "error (check_logo_in_image e c l mmc thr) \<noteq> None \<Longrightarrow>
     \<not> found (check_logo_in_image e c l mmc thr) \<and>
     match_count (check_logo_in_image e c l mmc thr) = 0 \<and>
     confidence (check_logo_in_image e c l mmc thr) = 0" by blast
qed

theorem error_implies_not_found_witness:
  "error (check_logo_in_image (demo_env demo_files (Inr None)) ''output/c1/p1/1x1/de/campaign_p1_de_1x1.png''
            ''input/assets/logo.png'' 10 (3 / 4)) \<noteq> None \<and>
   \<not> found (check_logo_in_image (demo_env demo_files (Inr None)) ''output/c1/p1/1x1/de/campaign_p1_de_1x1.png''
            ''input/assets/logo.png'' 10 (3 / 4)) \<and>
   match_count (check_logo_in_image (demo_env demo_files (Inr None)) ''output/c1/p1/1x1/de/campaign_p1_de_1x1.png''
            ''input/assets/logo.png'' 10 (3 / 4)) = 0 \<and>
   confidence (check_logo_in_image (demo_env demo_files (Inr None)) ''output/c1/p1/1x1/de/campaign_p1_de_1x1.png''
            ''input/assets/logo.png'' 10 (3 / 4)) = 0"
proof -
  have h: "error (check_logo_in_image (demo_env demo_files (Inr None))
             ''output/c1/p1/1x1/de/campaign_p1_de_1x1.png'' ''input/assets/logo.png'' 10 (3 / 4)) \<noteq> None"
    by (simp add: check_logo_in_image_def demo_env_def demo_files_def error_result_def)
  from h error_implies_not_found [OF h] show ?thesis by blast
qed

text \<open>
  C3: in a result without error, \<open>found\<close> holds exactly when \<open>match_count\<close> reaches
  \<open>min_match_count\<close>, whose default is 10.
\<close>

theorem found_iff_min_match_count:
  assumes "error (check_logo_in_image e c l min_match_count thr) = None"
  shows "default_min_match_count = 10 \<and>
         (found (check_logo_in_image e c l min_match_count thr) \<longleftrightarrow>
            min_match_count \<le> int (match_count (check_logo_in_image e c l min_match_count thr)))"
proof -
  have "error r = None \<longrightarrow> (found r \<longleftrightarrow> min_match_count \<le> int (match_count r))"
    if "r = check_logo_in_image e c l min_match_count thr" for r
    unfolding that
    by (rule check_logo_in_image_cases) (simp_all add: error_result_sel match_and_decide_sel)
  with assms show ?thesis by (simp add: default_min_match_count_def)
qed

theorem found_iff_min_match_count_witness:
  "error (check_logo_in_image (demo_env demo_files (Inr None))
      ''output/c1/p1/1x1/us/campaign_p1_us_1x1.png'' ''input/assets/logo.png'' 10 (3 / 4)) = None \<and>
   match_count (check_logo_in_image (demo_env demo_files (Inr None))
      ''output/c1/p1/1x1/us/campaign_p1_us_1x1.png'' ''input/assets/logo.png'' 10 (3 / 4)) = 4 \<and>
   \<not> found (check_logo_in_image (demo_env demo_files (Inr None))
      ''output/c1/p1/1x1/us/campaign_p1_us_1x1.png'' ''input/assets/logo.png'' 10 (3 / 4))"
proof -
  have h: "error (check_logo_in_image (demo_env demo_files (Inr None))
      ''output/c1/p1/1x1/us/campaign_p1_us_1x1.png'' ''input/assets/logo.png'' 10 (3 / 4)) = None"
    by (simp add: demo_matched match_and_decide_sel)
  have m: "match_count (check_logo_in_image (demo_env demo_files (Inr None))
      ''output/c1/p1/1x1/us/campaign_p1_us_1x1.png'' ''input/assets/logo.png'' 10 (3 / 4)) = 4"
    by (simp add: demo_matched match_and_decide_sel demo_ratio_test)
  from found_iff_min_match_count [OF h, THEN conjunct2] h m show ?thesis by simp
qed

text \<open>
  C2, as the code has it: in a result without error, \<open>confidence\<close> is
  \<open>round(min(match_count / logo_keypoint_count, 1.0), 3)\<close>, the float quotient rounded
  to three decimals, where \<open>logo_keypoint_count\<close> is the number of keypoints detected
  in the logo image, and 0.0 when the logo has no keypoint; it lies between 0 and 1.
\<close>

theorem confidence_is_rounded_ratio:
  assumes "error (check_logo_in_image e c l mmc thr) = None"
  shows "\<exists>l_img logo_gray kp1 des1.
           imread e (Path e l) = Inr (Some l_img) \<and> cvtColor e l_img = Inr logo_gray \<and>
           detectAndCompute e logo_gray = Inr (kp1, des1) \<and>
           confidence (check_logo_in_image e c l mmc thr) =
             py_round3 (if 0 < length kp1
                        then min (round_double (of_nat (match_count (check_logo_in_image e c l mmc thr))
                                    / of_nat (length kp1))) 1
                        else 0) \<and>
           0 \<le> confidence (check_logo_in_image e c l mmc thr) \<and>
           confidence (check_logo_in_image e c l mmc thr) \<le> 1"
proof -
  let ?r = "check_logo_in_image e c l mmc thr"
  from success_confidence [OF assms] obtain l_img logo_gray kp1 des1 where
    chain: "imread e (Path e l) = Inr (Some l_img)" "cvtColor e l_img = Inr logo_gray"
      "detectAndCompute e logo_gray = Inr (kp1, des1)"
    and conf: "confidence ?r = py_round3 (if 0 < length kp1
                 then min (round_double (of_nat (match_count ?r) / of_nat (length kp1))) 1 else 0)"
    by blast
  have "0 \<le> confidence ?r \<and> confidence ?r \<le> 1"
    unfolding conf using unit_ratio [of "length kp1" "match_count ?r"]
    by (intro py_round3_unit) blast+
  with chain conf show ?thesis by blast
qed

theorem confidence_is_rounded_ratio_witness:
  "error (check_logo_in_image (demo_env demo_files (Inr None))
      ''output/c1/p1/1x1/us/campaign_p1_us_1x1.png'' ''input/assets/logo.png'' 4 (3 / 4)) = None \<and>
   confidence (check_logo_in_image (demo_env demo_files (Inr None))
      ''output/c1/p1/1x1/us/campaign_p1_us_1x1.png'' ''input/assets/logo.png'' 4 (3 / 4)) = 667 / 1000"
proof -
  let ?e = "demo_env demo_files (Inr None)"
  let ?r = "check_logo_in_image ?e
      ''output/c1/p1/1x1/us/campaign_p1_us_1x1.png'' ''input/assets/logo.png'' 4 (3 / 4)"
  have h: "error ?r = None" by (rule demo_run)
  from confidence_is_rounded_ratio [OF h] obtain l_img logo_gray kp1 des1 where
    chain: "imread ?e (Path ?e ''input/assets/logo.png'') = Inr (Some l_img)"
      "cvtColor ?e l_img = Inr logo_gray" "detectAndCompute ?e logo_gray = Inr (kp1, des1)"
    and conf: "confidence ?r = py_round3 (if 0 < length kp1
                 then min (round_double (of_nat (match_count ?r) / of_nat (length kp1))) 1 else 0)"
    by blast
  have "kp1 = demo_keypoints" using chain by (rule demo_logo_keypoints)
  with conf have "confidence ?r = 667 / 1000"
    by (simp add: demo_run demo_keypoints_length demo_two_thirds)
  with h show ?thesis by blast
qed

text \<open>
  The unrounded formula fails: with four good matches and six logo keypoints the float
  quotient is the double nearest to 2/3 and the returned confidence is 0.667.
\<close>

theorem confidence_unrounded_counterexample:
  "error (check_logo_in_image (demo_env demo_files (Inr None))
      ''output/c1/p1/1x1/us/campaign_p1_us_1x1.png'' ''input/assets/logo.png'' 4 (3 / 4)) = None \<and>
   detectAndCompute (demo_env demo_files (Inr None)) 11 = Inr (demo_keypoints, Some [[11]]) \<and>
   confidence (check_logo_in_image (demo_env demo_files (Inr None))
      ''output/c1/p1/1x1/us/campaign_p1_us_1x1.png'' ''input/assets/logo.png'' 4 (3 / 4)) \<noteq>
   min (round_double (of_nat (match_count (check_logo_in_image (demo_env demo_files (Inr None))
      ''output/c1/p1/1x1/us/campaign_p1_us_1x1.png'' ''input/assets/logo.png'' 4 (3 / 4)))
        / of_nat (max 1 (length demo_keypoints)))) 1"
proof -
  have d: "detectAndCompute (demo_env demo_files (Inr None)) 11 = Inr (demo_keypoints, Some [[11]])"
    by (simp add: demo_env_def)
  have c: "confidence (check_logo_in_image (demo_env demo_files (Inr None))
      ''output/c1/p1/1x1/us/campaign_p1_us_1x1.png'' ''input/assets/logo.png'' 4 (3 / 4)) =
      py_round3 (min (round_double (2 / 3)) 1)"
    by (simp add: demo_matched match_and_decide_sel demo_ratio_test demo_keypoints_length)
  show ?thesis unfolding c demo_run demo_keypoints_length using demo_two_thirds(2) d by simp
qed



subsection \<open>Matching, location and missing features\<close>

lemma find_location_fit_fails:
  assumes "those (map (\<lambda>m. map_option pt (py_index kp1 (queryIdx m))) good) = Some src_pts"
    and "those (map (\<lambda>m. map_option pt (py_index kp2 (trainIdx m))) good) = Some dst_pts"
    and "findHomography e src_pts dst_pts = Inr None \<or>
         (\<exists>ex. findHomography e src_pts dst_pts = Inl ex)"
  shows "find_location e kp1 kp2 good lg = None"
  using assms unfolding find_location_def by auto

lemma record_check_sel:
  "total_checked (record_check e mmc pid lp ar mid ip st) = total_checked st + 1"
  "results (record_check e mmc pid lp ar mid ip st) =
     results st @ [\<lparr>found = found (check_logo_in_image e ip lp mmc default_good_match_threshold),
        match_count = match_count (check_logo_in_image e ip lp mmc default_good_match_threshold),
        confidence = confidence (check_logo_in_image e ip lp mmc default_good_match_threshold),
        location = location (check_logo_in_image e ip lp mmc default_good_match_threshold),
        error = error (check_logo_in_image e ip lp mmc default_good_match_threshold),
        entry_product_id = pid, entry_aspect_ratio = ar, entry_market_id = mid,
        entry_image_path = ip, entry_logo_path = lp\<rparr>]"
  "errors (record_check e mmc pid lp ar mid ip st) =
     (if error_truthy (error (check_logo_in_image e ip lp mmc default_good_match_threshold))
      then errors st + 1 else errors st)"
  "passed (record_check e mmc pid lp ar mid ip st) =
     (if \<not> error_truthy (error (check_logo_in_image e ip lp mmc default_good_match_threshold)) \<and>
         found (check_logo_in_image e ip lp mmc default_good_match_threshold)
      then passed st + 1 else passed st)"
  "failed (record_check e mmc pid lp ar mid ip st) =
     (if \<not> error_truthy (error (check_logo_in_image e ip lp mmc default_good_match_threshold)) \<and>
         \<not> found (check_logo_in_image e ip lp mmc default_good_match_threshold)
      then failed st + 1 else failed st)"
  "load_error (record_check e mmc pid lp ar mid ip st) = load_error st"
  by (simp_all add: record_check_def Let_def)

text \<open>
  C6: when both images are read and described and \<open>knnMatch\<close> returns \<open>matches\<close>, a
  tuple of two matches (best, second best) is accepted exactly when
  \<open>distance(best) < good_match_threshold * distance(second_best)\<close>, the product being
  the product of floats that line 139 computes; the good matches are the best matches of
  the accepted tuples, in order, and \<open>match_count\<close> is their number. The default
  threshold is 0.75.
\<close>

theorem ratio_test_decides_match_count:
  assumes "path_exists e (Path e c) = Inr True" "path_exists e (Path e l) = Inr True"
    and "imread e (Path e c) = Inr (Some c_img)" "imread e (Path e l) = Inr (Some l_img)"
    and "cvtColor e c_img = Inr cg" "cvtColor e l_img = Inr lg"
    and "ORB_create e = Inr ()"
    and "detectAndCompute e lg = Inr (kp1, Some des1)"
    and "detectAndCompute e cg = Inr (kp2, Some des2)"
    and "BFMatcher e = Inr ()"
    and "knnMatch e des1 des2 = Inr matches"
  shows "ratio_test good_match_threshold matches =
           map (\<lambda>p. p ! 0)
             (filter (\<lambda>p. length p = 2 \<and>
                 distance (p ! 0) < round_double (good_match_threshold * distance (p ! 1))) matches) \<and>
         match_count (check_logo_in_image e c l mmc good_match_threshold) =
           length (filter (\<lambda>p. length p = 2 \<and>
                 distance (p ! 0) < round_double (good_match_threshold * distance (p ! 1))) matches) \<and>
         default_good_match_threshold = 3 / 4"
proof -
  have "check_logo_in_image e c l mmc good_match_threshold =
          match_and_decide e mmc good_match_threshold kp1 kp2 matches lg"
    using assms by (rule check_logo_in_image_matched)
  then have "match_count (check_logo_in_image e c l mmc good_match_threshold) =
          length (ratio_test good_match_threshold matches)"
    by (simp add: match_and_decide_sel)
  then show ?thesis
    by (simp add: ratio_test_filter default_good_match_threshold_def)
qed

lemma demo_pipeline:
  "path_exists (demo_env demo_files hom)
     (Path (demo_env demo_files hom) ''output/c1/p1/1x1/us/campaign_p1_us_1x1.png'') = Inr True"
  "path_exists (demo_env demo_files hom) (Path (demo_env demo_files hom) ''input/assets/logo.png'') = Inr True"
  "imread (demo_env demo_files hom)
     (Path (demo_env demo_files hom) ''output/c1/p1/1x1/us/campaign_p1_us_1x1.png'') = Inr (Some 2)"
  "imread (demo_env demo_files hom) (Path (demo_env demo_files hom) ''input/assets/logo.png'')
     = Inr (Some 1)"
  "cvtColor (demo_env demo_files hom) 2 = Inr 12"
  "cvtColor (demo_env demo_files hom) 1 = Inr 11"
  "ORB_create (demo_env demo_files hom) = Inr ()"
  "detectAndCompute (demo_env demo_files hom) 11 = Inr (demo_keypoints, Some [[11]])"
  "detectAndCompute (demo_env demo_files hom) 12 = Inr (demo_keypoints, Some [[12]])"
  "BFMatcher (demo_env demo_files hom) = Inr ()"
  "knnMatch (demo_env demo_files hom) [[11]] [[12]] = Inr demo_matches"
  by (simp_all add: demo_env_def demo_files_def)

lemma demo_accepted:
  "filter (\<lambda>p. length p = 2 \<and> distance (p ! 0) < round_double (3 / 4 * distance (p ! 1))) demo_matches =
     [[\<lparr>distance = 10, queryIdx = 0, trainIdx = 0\<rparr>, \<lparr>distance = 40, queryIdx = 0, trainIdx = 1\<rparr>],
      [\<lparr>distance = 12, queryIdx = 1, trainIdx = 1\<rparr>, \<lparr>distance = 50, queryIdx = 1, trainIdx = 2\<rparr>],
      [\<lparr>distance = 3, queryIdx = 2, trainIdx = 2\<rparr>, \<lparr>distance = 8, queryIdx = 2, trainIdx = 0\<rparr>],
      [\<lparr>distance = 20, queryIdx = 3, trainIdx = 3\<rparr>, \<lparr>distance = 60, queryIdx = 3, trainIdx = 1\<rparr>]]"
  by code_simp

theorem ratio_test_decides_match_count_witness:
  "knnMatch (demo_env demo_files (Inr None)) [[11]] [[12]] = Inr demo_matches \<and>
   match_count (check_logo_in_image (demo_env demo_files (Inr None))
      ''output/c1/p1/1x1/us/campaign_p1_us_1x1.png'' ''input/assets/logo.png'' 10 (3 / 4)) = 4"
proof -
  note t = ratio_test_decides_match_count [OF demo_pipeline [of "Inr None"],
      where mmc = 10 and good_match_threshold = "3 / 4"]
  from t have "match_count (check_logo_in_image (demo_env demo_files (Inr None))
      ''output/c1/p1/1x1/us/campaign_p1_us_1x1.png'' ''input/assets/logo.png'' 10 (3 / 4)) = 4"
    unfolding demo_accepted by simp
  with demo_pipeline(11) show ?thesis by blast
qed


text \<open>
  C7: a result has a location only if \<open>found\<close> holds and there are at least four good
  matches. When the matching succeeds and the call of \<open>findHomography\<close> on the points of
  the good matches of this run raises or returns \<open>None\<close>, the result has no error,
  \<open>found\<close> is decided by \<open>match_count\<close> alone and the location is \<open>None\<close>.
\<close>

theorem location_only_with_found_and_four_matches:
  "(location (check_logo_in_image e1 c1 l1 mmc1 thr1) \<noteq> None \<longrightarrow>
      found (check_logo_in_image e1 c1 l1 mmc1 thr1) \<and>
      4 \<le> match_count (check_logo_in_image e1 c1 l1 mmc1 thr1)) \<and>
   (path_exists e (Path e c) = Inr True \<and> path_exists e (Path e l) = Inr True \<and>
    imread e (Path e c) = Inr (Some c_img) \<and> imread e (Path e l) = Inr (Some l_img) \<and>
    cvtColor e c_img = Inr cg \<and> cvtColor e l_img = Inr lg \<and> ORB_create e = Inr () \<and>
    detectAndCompute e lg = Inr (kp1, Some des1) \<and>
    detectAndCompute e cg = Inr (kp2, Some des2) \<and> BFMatcher e = Inr () \<and>
    knnMatch e des1 des2 = Inr matches \<and>
    those (map (\<lambda>m. map_option pt (py_index kp1 (queryIdx m))) (ratio_test thr matches))
      = Some src_pts \<and>
    those (map (\<lambda>m. map_option pt (py_index kp2 (trainIdx m))) (ratio_test thr matches))
      = Some dst_pts \<and>
    (findHomography e src_pts dst_pts = Inr None \<or>
     (\<exists>ex. findHomography e src_pts dst_pts = Inl ex)) \<longrightarrow>
      error (check_logo_in_image e c l mmc thr) = None \<and>
      (found (check_logo_in_image e c l mmc thr) \<longleftrightarrow>
         mmc \<le> int (match_count (check_logo_in_image e c l mmc thr))) \<and>
      location (check_logo_in_image e c l mmc thr) = None)"
proof (intro conjI impI)
  assume a: "location (check_logo_in_image e1 c1 l1 mmc1 thr1) \<noteq> None"
  have "location r \<noteq> None \<longrightarrow> found r \<and> 4 \<le> match_count r"
    if "r = check_logo_in_image e1 c1 l1 mmc1 thr1" for r
    unfolding that
    by (rule check_logo_in_image_cases) (simp_all add: error_result_sel match_and_decide_sel)
  with a show "found (check_logo_in_image e1 c1 l1 mmc1 thr1)"
    and "4 \<le> match_count (check_logo_in_image e1 c1 l1 mmc1 thr1)" by blast+
next
  assume b: "path_exists e (Path e c) = Inr True \<and> path_exists e (Path e l) = Inr True \<and>
    imread e (Path e c) = Inr (Some c_img) \<and> imread e (Path e l) = Inr (Some l_img) \<and>
    cvtColor e c_img = Inr cg \<and> cvtColor e l_img = Inr lg \<and> ORB_create e = Inr () \<and>
    detectAndCompute e lg = Inr (kp1, Some des1) \<and>
    detectAndCompute e cg = Inr (kp2, Some des2) \<and> BFMatcher e = Inr () \<and>
    knnMatch e des1 des2 = Inr matches \<and>
    those (map (\<lambda>m. map_option pt (py_index kp1 (queryIdx m))) (ratio_test thr matches))
      = Some src_pts \<and>
    those (map (\<lambda>m. map_option pt (py_index kp2 (trainIdx m))) (ratio_test thr matches))
      = Some dst_pts \<and>
    (findHomography e src_pts dst_pts = Inr None \<or>
     (\<exists>ex. findHomography e src_pts dst_pts = Inl ex))"
  then have r: "check_logo_in_image e c l mmc thr = match_and_decide e mmc thr kp1 kp2 matches lg"
    by (intro check_logo_in_image_matched) blast+
  from b have loc: "find_location e kp1 kp2 (ratio_test thr matches) lg = None"
    by (intro find_location_fit_fails [of kp1 _ src_pts kp2 dst_pts]) blast+
  show "error (check_logo_in_image e c l mmc thr) = None"
    by (simp add: r match_and_decide_sel)
  show "found (check_logo_in_image e c l mmc thr) \<longleftrightarrow>
         mmc \<le> int (match_count (check_logo_in_image e c l mmc thr))"
    by (simp add: r match_and_decide_sel)
  show "location (check_logo_in_image e c l mmc thr) = None"
    by (simp add: r match_and_decide_sel loc)
qed

lemma demo_located:
  "location (check_logo_in_image (demo_env demo_files (Inr (Some [])))
      ''output/c1/p1/1x1/us/campaign_p1_us_1x1.png'' ''input/assets/logo.png'' 4 (3 / 4))
   = Some (0, 0, 49, 19)"
  by (simp add: demo_matched match_and_decide_sel demo_location) (simp add: demo_ratio_test)

lemma demo_points:
  "those (map (\<lambda>m. map_option pt (py_index demo_keypoints (queryIdx m)))
            (ratio_test (3 / 4) demo_matches)) = Some [(0, 0), (10, 0), (10, 5), (0, 5)]"
  "those (map (\<lambda>m. map_option pt (py_index demo_keypoints (trainIdx m)))
            (ratio_test (3 / 4) demo_matches)) = Some [(0, 0), (10, 0), (10, 5), (0, 5)]"
  unfolding demo_ratio_test by (simp_all add: demo_keypoints_def py_index_def)

theorem location_only_with_found_and_four_matches_witness:
  "location (check_logo_in_image (demo_env demo_files (Inr (Some [])))
      ''output/c1/p1/1x1/us/campaign_p1_us_1x1.png'' ''input/assets/logo.png'' 4 (3 / 4)) \<noteq> None \<and>
   found (check_logo_in_image (demo_env demo_files (Inr (Some [])))
      ''output/c1/p1/1x1/us/campaign_p1_us_1x1.png'' ''input/assets/logo.png'' 4 (3 / 4)) \<and>
   4 \<le> match_count (check_logo_in_image (demo_env demo_files (Inr (Some [])))
      ''output/c1/p1/1x1/us/campaign_p1_us_1x1.png'' ''input/assets/logo.png'' 4 (3 / 4)) \<and>
   findHomography (demo_env demo_files (Inl ''cv2.error''))
      [(0, 0), (10, 0), (10, 5), (0, 5)] [(0, 0), (10, 0), (10, 5), (0, 5)] = Inl ''cv2.error'' \<and>
   error (check_logo_in_image (demo_env demo_files (Inl ''cv2.error''))
      ''output/c1/p1/1x1/us/campaign_p1_us_1x1.png'' ''input/assets/logo.png'' 4 (3 / 4)) = None \<and>
   found (check_logo_in_image (demo_env demo_files (Inl ''cv2.error''))
      ''output/c1/p1/1x1/us/campaign_p1_us_1x1.png'' ''input/assets/logo.png'' 4 (3 / 4)) \<and>
   match_count (check_logo_in_image (demo_env demo_files (Inl ''cv2.error''))
      ''output/c1/p1/1x1/us/campaign_p1_us_1x1.png'' ''input/assets/logo.png'' 4 (3 / 4)) = 4 \<and>
   location (check_logo_in_image (demo_env demo_files (Inl ''cv2.error''))
      ''output/c1/p1/1x1/us/campaign_p1_us_1x1.png'' ''input/assets/logo.png'' 4 (3 / 4)) = None"
proof -
  let ?e1 = "demo_env demo_files (Inr (Some []))"
  let ?e = "demo_env demo_files (Inl ''cv2.error'')"
  let ?c = "''output/c1/p1/1x1/us/campaign_p1_us_1x1.png''"
  let ?l = "''input/assets/logo.png''"
  let ?pts = "[(0, 0), (10, 0), (10, 5), (0, 5)] :: point list"
  have a: "location (check_logo_in_image ?e1 ?c ?l 4 (3 / 4)) \<noteq> None"
    by (simp add: demo_located)
  have f: "findHomography ?e ?pts ?pts = Inl ''cv2.error''"
    by (simp add: demo_env_def)
  then have f': "findHomography ?e ?pts ?pts = Inr None \<or>
      (\<exists>ex. findHomography ?e ?pts ?pts = Inl ex)" by blast
  note p = demo_pipeline [of "Inl ''cv2.error''"]
  note t = location_only_with_found_and_four_matches [of ?e1 ?c ?l 4 "3 / 4" ?e ?c ?l
      2 1 12 11 demo_keypoints "[[11]]" demo_keypoints "[[12]]" demo_matches "3 / 4" ?pts ?pts 4]
  from t a have one: "found (check_logo_in_image ?e1 ?c ?l 4 (3 / 4)) \<and>
      4 \<le> match_count (check_logo_in_image ?e1 ?c ?l 4 (3 / 4))" by blast
  from t p demo_points f' have two: "error (check_logo_in_image ?e ?c ?l 4 (3 / 4)) = None \<and>
      (found (check_logo_in_image ?e ?c ?l 4 (3 / 4)) \<longleftrightarrow>
         4 \<le> int (match_count (check_logo_in_image ?e ?c ?l 4 (3 / 4)))) \<and>
      location (check_logo_in_image ?e ?c ?l 4 (3 / 4)) = None" by blast
  have "found (check_logo_in_image ?e ?c ?l 4 (3 / 4))"
    "match_count (check_logo_in_image ?e ?c ?l 4 (3 / 4)) = 4" by (simp_all add: demo_run)
  with a one two f show ?thesis by blast
qed

text \<open>
  C8, as the code has it: when both images are read and the logo or the campaign image
  has no descriptors, the result is the error dictionary with the message
  \<open>Not enough features detected in images\<close>, and the runner counts the image under
  \<open>errors\<close> and under neither \<open>passed\<close> nor \<open>failed\<close>.
\<close>

theorem no_features_is_an_error:
  assumes "path_exists e (Path e c) = Inr True" "path_exists e (Path e l) = Inr True"
    and "imread e (Path e c) = Inr (Some c_img)" "imread e (Path e l) = Inr (Some l_img)"
    and "cvtColor e c_img = Inr cg" "cvtColor e l_img = Inr lg"
    and "ORB_create e = Inr ()"
    and "detectAndCompute e lg = Inr (kp1, des1)"
    and "detectAndCompute e cg = Inr (kp2, des2)"
    and "des1 = None \<or> des2 = None"
  shows "check_logo_in_image e c l mmc thr =
           error_result ''Not enough features detected in images'' \<and>
         total_checked (record_check e mmc pid l ar mid c st) = total_checked st + 1 \<and>
         errors (record_check e mmc pid l ar mid c st) = errors st + 1 \<and>
         passed (record_check e mmc pid l ar mid c st) = passed st \<and>
         failed (record_check e mmc pid l ar mid c st) = failed st"
proof -
  have r: "check_logo_in_image e c l m t = error_result ''Not enough features detected in images''"
    for m t
    using assms by (rule check_logo_in_image_no_features)
  show ?thesis
    by (simp add: r record_check_sel error_result_sel error_truthy_def)
qed

theorem no_features_is_an_error_witness:
  "detectAndCompute (demo_env demo_files (Inr None)) 13 = Inr ([], None) \<and>
   check_logo_in_image (demo_env demo_files (Inr None))
      ''output/c1/p3/1x1/us/campaign_p3_us_1x1.png'' ''input/assets/blank.png'' 10 (3 / 4) =
     error_result ''Not enough features detected in images'' \<and>
   errors (record_check (demo_env demo_files (Inr None)) 10 (YStr ''p3'') ''input/assets/blank.png''
      (YStr ''1x1'') (YStr ''us'') ''output/c1/p3/1x1/us/campaign_p3_us_1x1.png'' initial_summary) = 1"
proof -
  let ?e = "demo_env demo_files (Inr None)"
  have p: "path_exists ?e (Path ?e ''output/c1/p3/1x1/us/campaign_p3_us_1x1.png'') = Inr True"
    "path_exists ?e (Path ?e ''input/assets/blank.png'') = Inr True"
    "imread ?e (Path ?e ''output/c1/p3/1x1/us/campaign_p3_us_1x1.png'') = Inr (Some 2)"
    "imread ?e (Path ?e ''input/assets/blank.png'') = Inr (Some 3)"
    "cvtColor ?e 2 = Inr 12" "cvtColor ?e 3 = Inr 13"
    "ORB_create ?e = Inr ()"
    "detectAndCompute ?e 13 = Inr ([], None)"
    "detectAndCompute ?e 12 = Inr (demo_keypoints, Some [[12]])"
    "None = None \<or> Some [[12::nat]] = None"
    by (simp_all add: demo_env_def demo_files_def)
  note t = no_features_is_an_error [OF p, where mmc = 10 and thr = "3 / 4" and pid = "YStr ''p3''"
      and ar = "YStr ''1x1''" and mid = "YStr ''us''" and st = initial_summary]
  have "errors initial_summary = 0" by (simp add: initial_summary_def)
  with t p(8) show ?thesis by simp
qed

text \<open>
  The message is not the string \<open>Not enough features detected\<close>: line 125 appends
  \<open>in images\<close>.
\<close>

theorem no_features_message_counterexample:
  "detectAndCompute (demo_env demo_files (Inr None)) 13 = Inr ([], None) \<and>
   error (check_logo_in_image (demo_env demo_files (Inr None))
      ''output/c1/p3/1x1/us/campaign_p3_us_1x1.png'' ''input/assets/blank.png'' 10 (3 / 4)) \<noteq>
     Some ''Not enough features detected''"
proof -
  let ?e = "demo_env demo_files (Inr None)"
  have p: "path_exists ?e (Path ?e ''output/c1/p3/1x1/us/campaign_p3_us_1x1.png'') = Inr True"
    "path_exists ?e (Path ?e ''input/assets/blank.png'') = Inr True"
    "imread ?e (Path ?e ''output/c1/p3/1x1/us/campaign_p3_us_1x1.png'') = Inr (Some 2)"
    "imread ?e (Path ?e ''input/assets/blank.png'') = Inr (Some 3)"
    "cvtColor ?e 2 = Inr 12" "cvtColor ?e 3 = Inr 13"
    "ORB_create ?e = Inr ()"
    "detectAndCompute ?e 13 = Inr ([], None)"
    "detectAndCompute ?e 12 = Inr (demo_keypoints, Some [[12]])"
    "None = None \<or> Some [[12::nat]] = None"
    by (simp_all add: demo_env_def demo_files_def)
  have "check_logo_in_image ?e ''output/c1/p3/1x1/us/campaign_p3_us_1x1.png''
      ''input/assets/blank.png'' 10 (3 / 4) = error_result ''Not enough features detected in images''"
    using p by (rule check_logo_in_image_no_features)
  with p(8) show ?thesis by (simp add: error_result_sel)
qed

subsection \<open>The campaign runner\<close>

lemma for_each_invariant:
  assumes step: "\<And>s x s'. P s \<Longrightarrow> body s x = Inr s' \<Longrightarrow> P s'"
    and "P st" and "for_each body xs st = Inr st'"
  shows "P st'"
  using assms(2,3)
proof (induction xs arbitrary: st)
  case Nil
  then show ?case by simp
next
  case (Cons x xs)
  then show ?case by (auto split: sum.splits dest: step)
qed

lemma py_for_invariant:
  assumes "\<And>s x s'. P s \<Longrightarrow> body s x = Inr s' \<Longrightarrow> P s'"
    and "P st" and "py_for body v st = Inr st'"
  shows "P st'"
  using assms(3) unfolding py_for_def
  by (auto split: sum.splits intro: for_each_invariant [of P body, OF assms(1) assms(2)])

lemma for_each_skip:
  assumes "\<And>s. body s x = Inr s"
  shows "for_each body (xs @ x # ys) st = for_each body (xs @ ys) st"
  by (induction xs arbitrary: st) (simp_all add: assms split: sum.splits)

lemma record_check_invariant:
  assumes "total_checked st = passed st + failed st + errors st \<and>
           length (results st) = total_checked st"
  shows "total_checked (record_check e mmc pid lp ar mid ip st) =
           passed (record_check e mmc pid lp ar mid ip st) +
           failed (record_check e mmc pid lp ar mid ip st) +
           errors (record_check e mmc pid lp ar mid ip st) \<and>
         length (results (record_check e mmc pid lp ar mid ip st)) =
           total_checked (record_check e mmc pid lp ar mid ip st)"
  using assms by (simp add: record_check_sel)

lemma check_market_invariant:
  assumes inv: "total_checked st = passed st + failed st + errors st \<and>
           length (results st) = total_checked st"
    and run: "check_market e mmc cid pid lp ar st market = Inr st'"
  shows "total_checked st' = passed st' + failed st' + errors st' \<and>
         length (results st') = total_checked st'"
proof -
  from run obtain mid where
    "st' = st \<or> st' = record_check e mmc pid lp ar mid (expected_image_path e cid pid ar mid) st"
    unfolding check_market_def Let_def by (auto split: sum.splits bool.splits)
  then show ?thesis
    using inv record_check_invariant [OF inv, of e mmc pid lp ar mid] by auto
qed

lemma check_aspect_ratio_invariant:
  assumes inv: "total_checked st = passed st + failed st + errors st \<and>
           length (results st) = total_checked st"
    and run: "check_aspect_ratio e mmc cid pid lp markets st ar = Inr st'"
  shows "total_checked st' = passed st' + failed st' + errors st' \<and>
         length (results st') = total_checked st'"
proof (rule py_for_invariant [where P = "\<lambda>s. total_checked s = passed s + failed s + errors s \<and>
           length (results s) = total_checked s"])
  show "py_for (check_market e mmc cid pid lp ar) markets st = Inr st'"
    using run by (simp add: check_aspect_ratio_def)
  show "total_checked st = passed st + failed st + errors st \<and>
           length (results st) = total_checked st" by (rule inv)
  show "total_checked s' = passed s' + failed s' + errors s' \<and>
           length (results s') = total_checked s'"
    if "total_checked s = passed s + failed s + errors s \<and> length (results s) = total_checked s"
      and "check_market e mmc cid pid lp ar s x = Inr s'" for s x s'
    using that by (rule check_market_invariant)
qed

lemma check_product_invariant:
  assumes inv: "total_checked st = passed st + failed st + errors st \<and>
           length (results st) = total_checked st"
    and run: "check_product e mmc cid ars markets st product = Inr st'"
  shows "total_checked st' = passed st' + failed st' + errors st' \<and>
         length (results st') = total_checked st'"
proof -
  from run have "st' = st \<or>
      (\<exists>pid lp. py_for (check_aspect_ratio e mmc cid pid lp markets) ars st = Inr st')"
    unfolding check_product_def Let_def by (auto split: sum.splits if_splits)
  then show ?thesis
  proof
    assume "st' = st"
    with inv show ?thesis by simp
  next
    assume "\<exists>pid lp. py_for (check_aspect_ratio e mmc cid pid lp markets) ars st = Inr st'"
    then obtain pid lp where
      loop: "py_for (check_aspect_ratio e mmc cid pid lp markets) ars st = Inr st'" by blast
    show ?thesis
    proof (rule py_for_invariant [where P = "\<lambda>s. total_checked s = passed s + failed s + errors s \<and>
           length (results s) = total_checked s"])
      show "py_for (check_aspect_ratio e mmc cid pid lp markets) ars st = Inr st'" by (rule loop)
      show "total_checked st = passed st + failed st + errors st \<and>
           length (results st) = total_checked st" by (rule inv)
      show "total_checked s' = passed s' + failed s' + errors s' \<and>
           length (results s') = total_checked s'"
        if "total_checked s = passed s + failed s + errors s \<and>
            length (results s) = total_checked s"
          and "check_aspect_ratio e mmc cid pid lp markets s x = Inr s'" for s x s'
        using that by (rule check_aspect_ratio_invariant)
    qed
  qed
qed

lemma loaded_run:
  assumes "path_exists e (resolve_campaign_path e campaign_file) = Inr True"
    and "check_campaign_compliance e campaign_file mmc verbose = Inr s"
  shows "\<exists>cid ars markets products.
           py_for (check_product e mmc cid ars markets) products initial_summary = Inr s"
  using assms unfolding check_campaign_compliance_def Let_def
  by (auto split: sum.splits)

lemma demo_resolve:
  "resolve_campaign_path (demo_env demo_files hom) ''holiday_campaign.yaml'' =
     ''input/campaigns/holiday_campaign.yaml''"
  "resolve_campaign_path (demo_env demo_files hom) ''broken.yaml'' = ''input/campaigns/broken.yaml''"
  "resolve_campaign_path (demo_env demo_files hom) ''missing.yaml'' = ''input/campaigns/missing.yaml''"
  by (simp_all add: resolve_campaign_path_def demo_env_def)

lemma demo_campaign_run:
  "case check_campaign_compliance (demo_env demo_files (Inr None)) ''holiday_campaign.yaml'' 4 True of
     Inl ex \<Rightarrow> False
   | Inr s \<Rightarrow> total_checked s = 4 \<and> passed s = 3 \<and> failed s = 0 \<and> errors s = 1 \<and>
              length (results s) = 4"
  by code_simp

lemma demo_broken:
  "check_campaign_compliance (demo_env demo_files (Inr None)) ''broken.yaml'' 10 False =
     Inl (LoadError ''YAMLError'')"
  by (simp add: check_campaign_compliance_def demo_resolve) (simp add: demo_env_def demo_files_def)

text \<open>
  C9: every summary returned after the campaign file was found and loaded satisfies
  \<open>total_checked = passed + failed + errors\<close> and \<open>len(results) = total_checked\<close>;
  each checked image adds one to \<open>total_checked\<close>, appends one entry to \<open>results\<close> and
  adds one to exactly one of \<open>passed\<close>, \<open>failed\<close> and \<open>errors\<close>.
\<close>

theorem counters_add_up:
  assumes "path_exists e (resolve_campaign_path e campaign_file) = Inr True"
    and "check_campaign_compliance e campaign_file mmc verbose = Inr s"
  shows "total_checked s = passed s + failed s + errors s \<and>
         length (results s) = total_checked s \<and>
         total_checked (record_check e mmc pid lp ar mid ip st) = total_checked st + 1 \<and>
         length (results (record_check e mmc pid lp ar mid ip st)) = length (results st) + 1 \<and>
         (passed (record_check e mmc pid lp ar mid ip st),
          failed (record_check e mmc pid lp ar mid ip st),
          errors (record_check e mmc pid lp ar mid ip st))
           \<in> {(passed st + 1, failed st, errors st), (passed st, failed st + 1, errors st),
              (passed st, failed st, errors st + 1)}"
proof -
  from loaded_run [OF assms] obtain cid ars markets products where
    run: "py_for (check_product e mmc cid ars markets) products initial_summary = Inr s"
    by blast
  have init: "total_checked initial_summary =
      passed initial_summary + failed initial_summary + errors initial_summary \<and>
      length (results initial_summary) = total_checked initial_summary"
    by (simp add: initial_summary_def)
  have "total_checked s = passed s + failed s + errors s \<and> length (results s) = total_checked s"
  proof (rule py_for_invariant [where P = "\<lambda>s. total_checked s = passed s + failed s + errors s \<and>
           length (results s) = total_checked s"])
    show "py_for (check_product e mmc cid ars markets) products initial_summary = Inr s"
      by (rule run)
    show "total_checked initial_summary =
      passed initial_summary + failed initial_summary + errors initial_summary \<and>
      length (results initial_summary) = total_checked initial_summary" by (rule init)
    show "total_checked s' = passed s' + failed s' + errors s' \<and>
           length (results s') = total_checked s'"
      if "total_checked s = passed s + failed s + errors s \<and>
          length (results s) = total_checked s"
        and "check_product e mmc cid ars markets s x = Inr s'" for s x s'
      using that by (rule check_product_invariant)
  qed
  then show ?thesis by (simp add: record_check_sel)
qed

theorem counters_add_up_witness:
  "\<exists>s. check_campaign_compliance (demo_env demo_files (Inr None)) ''holiday_campaign.yaml'' 4 True
          = Inr s \<and>
       total_checked s = 4 \<and> passed s = 3 \<and> failed s = 0 \<and> errors s = 1 \<and>
       total_checked s = passed s + failed s + errors s \<and> length (results s) = total_checked s"
proof -
  let ?e = "demo_env demo_files (Inr None)"
  from demo_campaign_run obtain s where
    run: "check_campaign_compliance ?e ''holiday_campaign.yaml'' 4 True = Inr s"
    and counts: "total_checked s = 4" "passed s = 3" "failed s = 0" "errors s = 1"
    by (auto split: sum.splits)
  have ex: "path_exists ?e (resolve_campaign_path ?e ''holiday_campaign.yaml'') = Inr True"
    by (simp add: demo_resolve) (simp add: demo_env_def demo_files_def)
  from counters_add_up [OF ex run]
  have "total_checked s = passed s + failed s + errors s \<and> length (results s) = total_checked s"
    by blast
  with run counts show ?thesis by blast
qed

text \<open>
  C4, as the code has it: when \<open>Path.exists\<close> answers \<open>False\<close> for the campaign file,
  resolved as in lines 237-240, \<open>check_campaign_compliance\<close> raises nothing and returns
  at once the summary with \<open>total_checked = 0\<close>, \<open>passed = 0\<close>, \<open>failed = 0\<close>,
  \<open>errors = 1\<close> and no results.
\<close>

theorem missing_campaign_file_summary:
  assumes "path_exists e (resolve_campaign_path e campaign_file) = Inr False"
  shows "check_campaign_compliance e campaign_file mmc verbose =
           Inr \<lparr>total_checked = 0, passed = 0, failed = 0, errors = 1, results = [],
                load_error = Some (''Campaign file not found: ''
                                     @ resolve_campaign_path e campaign_file)\<rparr>"
  using assms by (simp add: check_campaign_compliance_def Let_def)

theorem missing_campaign_file_summary_witness:
  "path_exists (demo_env demo_files (Inr None))
        (resolve_campaign_path (demo_env demo_files (Inr None)) ''missing.yaml'') = Inr False \<and>
   check_campaign_compliance (demo_env demo_files (Inr None)) ''missing.yaml'' 10 True =
     Inr \<lparr>total_checked = 0, passed = 0, failed = 0, errors = 1, results = [],
          load_error = Some ''Campaign file not found: input/campaigns/missing.yaml''\<rparr>"
proof -
  let ?e = "demo_env demo_files (Inr None)"
  have h: "path_exists ?e (resolve_campaign_path ?e ''missing.yaml'') = Inr False"
    by (simp add: demo_resolve) (simp add: demo_env_def demo_files_def)
  from missing_campaign_file_summary [OF h, of 10 True] h show ?thesis
    by (simp add: demo_resolve)
qed

text \<open>
  A file that exists and that \<open>yaml.safe_load\<close> rejects is not turned into a summary:
  the exception leaves the function.
\<close>

theorem unparsable_campaign_file_counterexample:
  "path_exists (demo_env demo_files (Inr None))
     (resolve_campaign_path (demo_env demo_files (Inr None)) ''broken.yaml'') = Inr True \<and>
   open_yaml (demo_env demo_files (Inr None))
     (resolve_campaign_path (demo_env demo_files (Inr None)) ''broken.yaml'') = Inl ''YAMLError'' \<and>
   check_campaign_compliance (demo_env demo_files (Inr None)) ''broken.yaml'' 10 False =
     Inl (LoadError ''YAMLError'')"
  by (simp add: demo_broken demo_resolve) (simp add: demo_env_def demo_files_def)

lemma check_market_skip:
  assumes "py_get market (YStr ''market_id'') YNull = Inr market_id"
    and "path_exists e (Path e (expected_image_path e campaign_id product_id aspect_ratio market_id)) = Inr False"
  shows "check_market e mmc campaign_id product_id logo_path aspect_ratio st market = Inr st"
  using assms by (simp add: check_market_def Let_def)

lemma check_product_skip:
  assumes "product = YDict kvs"
    and "map_of kvs (YStr ''assets'') = None \<or>
         (\<exists>avs. map_of kvs (YStr ''assets'') = Some (YDict avs) \<and>
                map_of avs (YStr ''logo'') = None)"
  shows "check_product e mmc campaign_id aspect_ratios markets st product = Inr st"
  using assms by (auto simp: check_product_def)

text \<open>
  C5: a market whose campaign image is absent on disk (\<open>Path.exists\<close> answers \<open>False\<close>)
  leaves the counters and the results as they were, and the loop over the markets runs as
  if the market were not in the list; so does a product that has no \<open>assets\<close> or whose
  \<open>assets\<close> have no \<open>logo\<close>, for the loop over the products.
\<close>

theorem skipped_combinations_contribute_nothing:
  "(py_get market (YStr ''market_id'') YNull = Inr market_id \<and>
    path_exists e (Path e (expected_image_path e campaign_id product_id aspect_ratio market_id)) = Inr False
    \<longrightarrow>
      check_market e mmc campaign_id product_id logo_path aspect_ratio st market = Inr st \<and>
      for_each (check_market e mmc campaign_id product_id logo_path aspect_ratio)
          (ms1 @ market # ms2) st =
        for_each (check_market e mmc campaign_id product_id logo_path aspect_ratio)
          (ms1 @ ms2) st) \<and>
   (product = YDict kvs \<and>
    (map_of kvs (YStr ''assets'') = None \<or>
     (\<exists>avs. map_of kvs (YStr ''assets'') = Some (YDict avs) \<and> map_of avs (YStr ''logo'') = None))
    \<longrightarrow>
      check_product e' mmc' campaign_id' aspect_ratios markets st' product = Inr st' \<and>
      for_each (check_product e' mmc' campaign_id' aspect_ratios markets) (ps1 @ product # ps2) st' =
        for_each (check_product e' mmc' campaign_id' aspect_ratios markets) (ps1 @ ps2) st')"
proof (intro conjI impI)
  assume a: "py_get market (YStr ''market_id'') YNull = Inr market_id \<and>
    path_exists e (Path e (expected_image_path e campaign_id product_id aspect_ratio market_id)) = Inr False"
  then have skip: "check_market e mmc campaign_id product_id logo_path aspect_ratio s market = Inr s"
    for s by (intro check_market_skip) blast+
  show "check_market e mmc campaign_id product_id logo_path aspect_ratio st market = Inr st"
    by (rule skip)
  show "for_each (check_market e mmc campaign_id product_id logo_path aspect_ratio)
          (ms1 @ market # ms2) st =
        for_each (check_market e mmc campaign_id product_id logo_path aspect_ratio)
          (ms1 @ ms2) st"
    by (rule for_each_skip) (rule skip)
next
  assume b: "product = YDict kvs \<and>
    (map_of kvs (YStr ''assets'') = None \<or>
     (\<exists>avs. map_of kvs (YStr ''assets'') = Some (YDict avs) \<and> map_of avs (YStr ''logo'') = None))"
  then have skip: "check_product e' mmc' campaign_id' aspect_ratios markets s product = Inr s"
    for s by (intro check_product_skip) blast+
  show "check_product e' mmc' campaign_id' aspect_ratios markets st' product = Inr st'"
    by (rule skip)
  show "for_each (check_product e' mmc' campaign_id' aspect_ratios markets) (ps1 @ product # ps2) st' =
        for_each (check_product e' mmc' campaign_id' aspect_ratios markets) (ps1 @ ps2) st'"
    by (rule for_each_skip) (rule skip)
qed

theorem skipped_combinations_contribute_nothing_witness:
  "path_exists (demo_env demo_files (Inr None))
       (Path (demo_env demo_files (Inr None))
          (expected_image_path (demo_env demo_files (Inr None)) (YStr ''c1'') (YStr ''p1'')
             (YStr ''1x1'') (YStr ''de''))) = Inr False \<and>
   check_market (demo_env demo_files (Inr None)) 4 (YStr ''c1'') (YStr ''p1'')
       ''input/assets/logo.png'' (YStr ''1x1'') initial_summary
       (YDict [(YStr ''market_id'', YStr ''de'')]) = Inr initial_summary \<and>
   check_product (demo_env demo_files (Inr None)) 4 (YStr ''c1'')
       (YList [YStr ''1x1'', YStr ''9x16''])
       (YList [YDict [(YStr ''market_id'', YStr ''us'')], YDict [(YStr ''market_id'', YStr ''de'')]])
       initial_summary
       (YDict [(YStr ''id'', YStr ''p2''),
               (YStr ''assets'', YDict [(YStr ''product_image'', YStr ''p2.png'')])])
     = Inr initial_summary"
proof -
  let ?e = "demo_env demo_files (Inr None)"
  let ?m = "YDict [(YStr ''market_id'', YStr ''de'')]"
  let ?kvs = "[(YStr ''id'', YStr ''p2''),
               (YStr ''assets'', YDict [(YStr ''product_image'', YStr ''p2.png'')])]"
  have m: "py_get ?m (YStr ''market_id'') YNull = Inr (YStr ''de'')" by simp
  have x: "path_exists ?e (Path ?e (expected_image_path ?e (YStr ''c1'') (YStr ''p1'')
             (YStr ''1x1'') (YStr ''de''))) = Inr False"
    by (simp add: expected_image_path_def demo_env_def demo_files_def demo_str_def)
  have p: "YDict ?kvs = YDict ?kvs \<and>
    (map_of ?kvs (YStr ''assets'') = None \<or>
     (\<exists>avs. map_of ?kvs (YStr ''assets'') = Some (YDict avs) \<and> map_of avs (YStr ''logo'') = None))"
    by simp
  note t = skipped_combinations_contribute_nothing [of ?m "YStr ''de''" ?e "YStr ''c1''" "YStr ''p1''"
      "YStr ''1x1''" 4 "''input/assets/logo.png''" initial_summary "[]" "[]" "YDict ?kvs" ?kvs
      ?e 4 "YStr ''c1''" "YList [YStr ''1x1'', YStr ''9x16'']"
      "YList [YDict [(YStr ''market_id'', YStr ''us'')], YDict [(YStr ''market_id'', YStr ''de'')]]"
      initial_summary "[]" "[]"]
  from t m x p show ?thesis by blast
qed

end
